theory Spec2Isabelle
  imports Complex_Main
begin

section \<open>JavaScript values at the request boundary\<close>

text \<open>
  Both servers read untyped fields of a parsed request body. The model covers the scalar
  values a body can carry: an absent field (\<open>undefined\<close>), \<open>null\<close>, booleans,
  integer-valued numbers and strings; arrays, objects and numbers with a fraction are
  outside it. A string is a list of code units below 256.
  A number that a conversion produces is a \<open>jsnum\<close>: the exact rational it denotes, or one
  of the three special values. Rounding to the nearest double is followed only where it
  decides a comparison with zero (underflow) or produces an infinity (overflow).
\<close>

datatype jsnum = NaN | PosInf | NegInf | Fin rat

datatype jsval = JUndefined | JNull | JBool bool | JNum int | JStr string

subsection \<open>Digits\<close>

definition digit_char :: "nat \<Rightarrow> char" where
  "digit_char d = ''0123456789'' ! (d mod 10)"

fun dec :: "nat \<Rightarrow> string" where
  "dec n = (if n < 10 then [digit_char n] else dec (n div 10) @ [digit_char (n mod 10)])"

declare dec.simps [simp del]

definition is_digit :: "char \<Rightarrow> bool" where
  "is_digit c = (c \<in> set ''0123456789'')"

definition is_hex_digit :: "char \<Rightarrow> bool" where
  "is_hex_digit c = (c \<in> set ''0123456789abcdefABCDEF'')"

definition digit_val :: "char \<Rightarrow> int" where
  "digit_val c =
     (if is_digit c then of_char c - 48
      else if c \<in> set ''abcdef'' then of_char c - 87
      else of_char c - 55)"

definition radix_value :: "int \<Rightarrow> string \<Rightarrow> int" where
  "radix_value r ds = foldl (\<lambda>acc c. r * acc + digit_val c) 0 ds"

text \<open>The white space and line terminators of \<open>StrWhiteSpaceChar\<close> among the code units
  below 256: TAB, LF, VT, FF, CR, SP and NBSP.\<close>

definition is_ws :: "char \<Rightarrow> bool" where
  "is_ws c = (c \<in> set [CHR 0x09, CHR 0x0A, CHR 0x0B, CHR 0x0C, CHR 0x0D, CHR 0x20, CHR 0xA0])"

subsection \<open>ToBoolean, ToString\<close>

fun to_boolean :: "jsval \<Rightarrow> bool" where
  "to_boolean JUndefined = False"
| "to_boolean JNull = False"
| "to_boolean (JBool b) = b"
| "to_boolean (JNum n) = (n \<noteq> 0)"
| "to_boolean (JStr s) = (s \<noteq> [])"

text \<open>\<open>Number::toString\<close> in radix 10 on an integer: plain decimal digits below \<open>10^21\<close>,
  exponent notation from there on.\<close>

definition strip_trailing_zeros :: "string \<Rightarrow> string" where
  "strip_trailing_zeros ds = rev (dropWhile (\<lambda>c. c = CHR ''0'') (rev ds))"

definition nat_to_string :: "nat \<Rightarrow> string" where
  "nat_to_string n =
     (if n < 10 ^ 21 then dec n
      else (let ds = dec n; e = length ds - 1; sg = strip_trailing_zeros ds
            in (case sg of
                  [] \<Rightarrow> dec n
                | [d] \<Rightarrow> d # ''e+'' @ dec e
                | d # rest \<Rightarrow> d # ''.'' @ rest @ ''e+'' @ dec e)))"

definition num_to_string :: "int \<Rightarrow> string" where
  "num_to_string n = (if n < 0 then ''-'' @ nat_to_string (nat (- n)) else nat_to_string (nat n))"

fun to_string :: "jsval \<Rightarrow> string" where
  "to_string JUndefined = ''undefined''"
| "to_string JNull = ''null''"
| "to_string (JBool b) = (if b then ''true'' else ''false'')"
| "to_string (JNum n) = num_to_string n"
| "to_string (JStr s) = s"

subsection \<open>parseInt\<close>

text \<open>\<open>parseInt(v)\<close> with no radix: the argument is converted to a string, leading white
  space is dropped, an optional sign is read, a \<open>0x\<close> or \<open>0X\<close> prefix selects radix 16, and
  the longest prefix of digits of the radix is the value; no digit at all gives \<open>NaN\<close>,
  here \<open>None\<close>.\<close>

definition parse_int_string :: "string \<Rightarrow> int option" where
  "parse_int_string input =
     (let s = dropWhile is_ws input;
          sign = (case s of c # _ \<Rightarrow> (if c = CHR ''-'' then - 1 else 1) | [] \<Rightarrow> (1::int));
          s1 = (case s of c # r \<Rightarrow> (if c = CHR ''+'' \<or> c = CHR ''-'' then r else s) | [] \<Rightarrow> s);
          hex = (take 2 s1 = ''0x'' \<or> take 2 s1 = ''0X'');
          s2 = (if hex then drop 2 s1 else s1);
          z = takeWhile (if hex then is_hex_digit else is_digit) s2
      in if z = [] then None
         else Some (sign * radix_value (if hex then 16 else 10) z))"

definition parseInt :: "jsval \<Rightarrow> int option" where
  "parseInt v = parse_int_string (to_string v)"

subsection \<open>ToNumber\<close>

definition trim :: "string \<Rightarrow> string" where
  "trim s = rev (dropWhile is_ws (rev (dropWhile is_ws s)))"

text \<open>The double nearest to a rational is zero up to \<open>2^-1075\<close> and infinite from
  \<open>(2 - 2^-53) * 2^1023\<close> on.\<close>

definition to_double :: "rat \<Rightarrow> jsnum" where
  "to_double r =
     (if \<bar>r\<bar> \<le> 1 / 2 ^ 1075 then Fin 0
      else if (2 - 1 / 2 ^ 53) * 2 ^ 1023 \<le> \<bar>r\<bar> then (if 0 < r then PosInf else NegInf)
      else Fin r)"

definition prefixed_literal :: "int \<Rightarrow> (char \<Rightarrow> bool) \<Rightarrow> string \<Rightarrow> jsnum" where
  "prefixed_literal r ok ds =
     (if ds \<noteq> [] \<and> list_all ok ds then to_double (of_int (radix_value r ds)) else NaN)"

definition split_sign :: "string \<Rightarrow> int \<times> string" where
  "split_sign s =
     (case s of
        c # r \<Rightarrow> (if c = CHR ''+'' then (1, r) else if c = CHR ''-'' then (- 1, r) else (1, s))
      | [] \<Rightarrow> (1, s))"

definition exponent_part :: "string \<Rightarrow> int option" where
  "exponent_part s =
     (case s of
        [] \<Rightarrow> Some 0
      | c # r \<Rightarrow>
          (if c = CHR ''e'' \<or> c = CHR ''E'' then
             (let (sg, ds) = split_sign r
              in if ds \<noteq> [] \<and> list_all is_digit ds then Some (sg * radix_value 10 ds) else None)
           else None))"

definition scale10 :: "rat \<Rightarrow> int \<Rightarrow> rat" where
  "scale10 r e = (if 0 \<le> e then r * 10 ^ nat e else r / 10 ^ nat (- e))"

definition unsigned_decimal :: "int \<Rightarrow> string \<Rightarrow> jsnum" where
  "unsigned_decimal sg u =
     (let ip = takeWhile is_digit u;
          r1 = dropWhile is_digit u;
          fp = (case r1 of c # r \<Rightarrow> (if c = CHR ''.'' then takeWhile is_digit r else []) | [] \<Rightarrow> []);
          r2 = (case r1 of c # r \<Rightarrow> (if c = CHR ''.'' then dropWhile is_digit r else r1) | [] \<Rightarrow> r1)
      in if ip = [] \<and> fp = [] then NaN
         else (case exponent_part r2 of
                 None \<Rightarrow> NaN
               | Some e \<Rightarrow>
                   to_double (scale10 (of_int sg *
                     (of_int (radix_value 10 ip)
                      + of_int (radix_value 10 fp) / 10 ^ length fp)) e)))"

definition string_to_number :: "string \<Rightarrow> jsnum" where
  "string_to_number s =
     (let t = trim s
      in if t = [] then Fin 0
         else if take 2 t = ''0x'' \<or> take 2 t = ''0X'' then prefixed_literal 16 is_hex_digit (drop 2 t)
         else if take 2 t = ''0o'' \<or> take 2 t = ''0O'' then
           prefixed_literal 8 (\<lambda>c. c \<in> set ''01234567'') (drop 2 t)
         else if take 2 t = ''0b'' \<or> take 2 t = ''0B'' then
           prefixed_literal 2 (\<lambda>c. c \<in> set ''01'') (drop 2 t)
         else (let (sg, u) = split_sign t
               in if u = ''Infinity'' then (if sg = 1 then PosInf else NegInf)
                  else unsigned_decimal sg u))"

fun to_number :: "jsval \<Rightarrow> jsnum" where
  "to_number JUndefined = NaN"
| "to_number JNull = Fin 0"
| "to_number (JBool b) = (if b then Fin 1 else Fin 0)"
| "to_number (JNum n) = Fin (of_int n)"
| "to_number (JStr s) = string_to_number s"

definition isNaN :: "jsnum \<Rightarrow> bool" where
  "isNaN x = (x = NaN)"

text \<open>\<open>x <= 0\<close> on numbers: false when \<open>x\<close> is \<open>NaN\<close>.\<close>

fun le_zero :: "jsnum \<Rightarrow> bool" where
  "le_zero NaN = False"
| "le_zero PosInf = False"
| "le_zero NegInf = True"
| "le_zero (Fin r) = (r \<le> 0)"

section \<open>Regular expressions\<close>

text \<open>The two phone patterns use literal characters, \<open>\d\<close>, \<open>?\<close> and bounded repetition
  \<open>{m,n}\<close>. \<open>rmatch r s\<close> lists what is left of \<open>s\<close> after each way of matching \<open>r\<close> at its
  start. Both patterns are anchored by \<open>^\<close> and \<open>$\<close> and carry no flag, so \<open>test\<close> succeeds
  exactly when some way of matching leaves nothing.\<close>

datatype regex = Chr char | Digit | Opt regex | Rep nat nat regex | Cat regex regex

primrec iter :: "(string \<Rightarrow> string list) \<Rightarrow> nat \<Rightarrow> string \<Rightarrow> string list" where
  "iter f 0 s = [s]"
| "iter f (Suc n) s = concat (map (iter f n) (f s))"

primrec rmatch :: "regex \<Rightarrow> string \<Rightarrow> string list" where
  "rmatch (Chr c) s = (case s of [] \<Rightarrow> [] | x # r \<Rightarrow> (if x = c then [r] else []))"
| "rmatch Digit s = (case s of [] \<Rightarrow> [] | x # r \<Rightarrow> (if is_digit x then [r] else []))"
| "rmatch (Opt a) s = rmatch a s @ [s]"
| "rmatch (Rep m n a) s = concat (map (\<lambda>k. iter (rmatch a) k s) (rev [m..<Suc n]))"
| "rmatch (Cat a b) s = concat (map (rmatch b) (rmatch a s))"

definition regex_test :: "regex \<Rightarrow> string \<Rightarrow> bool" where
  "regex_test r s = ([] \<in> set (rmatch r s))"

text \<open>\<^verbatim>\<open>/^\+?\d{7,15}$/\<close> of server.js and \<^verbatim>\<open>/^2547\d{8}$/\<close> of index.js.\<close>

definition generic_phone_re :: regex where
  "generic_phone_re = Cat (Opt (Chr CHR ''+'')) (Rep 7 15 Digit)"

definition provider_phone_re :: regex where
  "provider_phone_re =
     Cat (Chr CHR ''2'') (Cat (Chr CHR ''5'') (Cat (Chr CHR ''4'') (Cat (Chr CHR ''7'') (Rep 8 8 Digit))))"

section \<open>Dates\<close>

text \<open>A \<open>Date\<close> is its time value, the milliseconds since the epoch. \<open>toISOString\<close> prints
  the UTC calendar fields of the time value as \<open>YYYY-MM-DDTHH:mm:ss.sssZ\<close>, the year with a
  sign and six digits outside 0..9999.\<close>

definition civil_from_days :: "int \<Rightarrow> int \<times> int \<times> int" where
  "civil_from_days z0 =
     (let z = z0 + 719468;
          era = z div 146097;
          doe = z - era * 146097;
          yoe = (doe - doe div 1460 + doe div 36524 - doe div 146096) div 365;
          doy = doe - (365 * yoe + yoe div 4 - yoe div 100);
          mp = (5 * doy + 2) div 153;
          d = doy - (153 * mp + 2) div 5 + 1;
          m = (if mp < 10 then mp + 3 else mp - 9);
          y = yoe + era * 400 + (if m \<le> 2 then 1 else 0)
      in (y, m, d))"

definition pad :: "nat \<Rightarrow> nat \<Rightarrow> string" where
  "pad w n = replicate (w - length (dec n)) CHR ''0'' @ dec n"

definition year_string :: "int \<Rightarrow> string" where
  "year_string y =
     (if 0 \<le> y \<and> y \<le> 9999 then pad 4 (nat y)
      else (if y < 0 then ''-'' else ''+'') @ pad 6 (nat \<bar>y\<bar>))"

definition toISOString :: "int \<Rightarrow> string" where
  "toISOString t =
     (let (y, m, d) = civil_from_days (t div 86400000);
          ms = t mod 86400000
      in year_string y @ ''-'' @ pad 2 (nat m) @ ''-'' @ pad 2 (nat d) @ ''T''
         @ pad 2 (nat (ms div 3600000)) @ '':'' @ pad 2 (nat (ms div 60000 mod 60)) @ '':''
         @ pad 2 (nat (ms div 1000 mod 60)) @ ''.'' @ pad 3 (nat (ms mod 1000)) @ ''Z'')"

section \<open>Buffers and base64\<close>

text \<open>\<open>Buffer.from(s)\<close> holds the UTF-8 bytes of \<open>s\<close>; \<open>toString('base64')\<close> prints them in
  the standard alphabet with padding.\<close>

definition utf8_bytes :: "string \<Rightarrow> nat list" where
  "utf8_bytes s =
     concat (map (\<lambda>c. (let n = of_char c in
                         if n < 128 then [n] else [192 + n div 64, 128 + n mod 64])) s)"

definition b64_char :: "nat \<Rightarrow> char" where
  "b64_char i = ''ABCDEFGHIJKLMNOPQRSTUVWXYZabcdefghijklmnopqrstuvwxyz0123456789+/'' ! (i mod 64)"

fun b64_encode :: "nat list \<Rightarrow> string" where
  "b64_encode [] = []"
| "b64_encode [a] = [b64_char (a div 4), b64_char (a mod 4 * 16), CHR ''='', CHR ''='']"
| "b64_encode [a, b] =
     [b64_char (a div 4), b64_char (a mod 4 * 16 + b div 16), b64_char (b mod 16 * 4), CHR ''='']"
| "b64_encode (a # b # c # rest) =
     [b64_char (a div 4), b64_char (a mod 4 * 16 + b div 16),
      b64_char (b mod 16 * 4 + c div 64), b64_char (c mod 64)] @ b64_encode rest"

definition base64 :: "string \<Rightarrow> string" where
  "base64 s = b64_encode (utf8_bytes s)"

section \<open>Requests and responses\<close>

text \<open>A parsed body is an object: a field that is absent reads as \<open>undefined\<close>. A response
  is the status code (200 unless \<open>res.status\<close> sets it) and the value given to \<open>res.json\<close>.\<close>

type_synonym body = "string \<rightharpoonup> jsval"

definition get_field :: "body \<Rightarrow> string \<Rightarrow> jsval" where
  "get_field b k = (case b k of None \<Rightarrow> JUndefined | Some v \<Rightarrow> v)"

record 'b response =
  status_code :: nat
  json :: 'b

section \<open>server.js: the demo payment store\<close>

record payment =
  id' :: string
  amount :: jsnum
  phone :: string
  reference :: jsval
  status :: string
  createdAt :: string
  completedAt :: "string option"

text \<open>The two validation messages of \<open>/api/pay\<close>, named: the second one holds a dash
  outside the code units of the model.\<close>

datatype message = Amount_must_be_a_positive_number | Phone_must_be_digits

datatype api_body =
    OkPayment payment
  | Errors "message list"
  | Error string

text \<open>\<open>payments\<close> is the store; \<open>timers\<close> holds, in the order of their registration, the id
  captured by each \<open>setTimeout\<close> callback (delay 2000) that has not run yet.\<close>

record server_state =
  payments :: "string \<rightharpoonup> payment"
  timers :: "string list"

definition init_state :: server_state where
  "init_state = \<lparr>payments = Map.empty, timers = []\<rparr>"

text \<open>What one run of the \<open>/api/pay\<close> handler reads from outside: \<open>Date.now()\<close> for the
  default reference, the time value of \<open>new Date()\<close> for \<open>createdAt\<close>, and the result of the
  k-th call of \<open>Math.random()\<close>.\<close>

record pay_env =
  date_now :: int
  clock :: int
  random :: "nat \<Rightarrow> rat"

definition chars :: string where
  "chars = ''ABCDEFGHIJKLMNOPQRSTUVWXYZabcdefghijklmnopqrstuvwxyz0123456789''"

text \<open>\<open>chars[Math.floor(r * chars.length)]\<close>, appended to a string: an index outside the
  string reads \<open>undefined\<close>, which appends the text \<open>undefined\<close>.\<close>

definition pick :: "rat \<Rightarrow> string" where
  "pick r =
     (let i = \<lfloor>r * of_nat (length chars)\<rfloor>
      in if 0 \<le> i \<and> i < int (length chars) then [chars ! nat i] else ''undefined'')"

function random_id_loop :: "(nat \<Rightarrow> rat) \<Rightarrow> nat \<Rightarrow> nat \<Rightarrow> string \<Rightarrow> string" where
  "random_id_loop rnd len i out =
     (if i < len then random_id_loop rnd len (Suc i) (out @ pick (rnd i)) else out)"
  by pat_completeness auto
termination
  by (relation "measure (\<lambda>(rnd, len, i, out). len - i)") auto

declare random_id_loop.simps [simp del]

definition cryptoRandomId :: "(nat \<Rightarrow> rat) \<Rightarrow> string" where
  "cryptoRandomId rnd = random_id_loop rnd 20 0 []"

definition amount_rejected :: "jsval \<Rightarrow> bool" where
  "amount_rejected a =
     (a = JNull \<or> a = JUndefined \<or> isNaN (to_number a) \<or> le_zero (to_number a))"

definition phone_rejected :: "jsval \<Rightarrow> bool" where
  "phone_rejected p = (\<not> to_boolean p \<or> \<not> regex_test generic_phone_re (to_string p))"

definition pay_errors :: "jsval \<Rightarrow> jsval \<Rightarrow> message list" where
  "pay_errors a p =
     (if amount_rejected a then [Amount_must_be_a_positive_number] else [])
     @ (if phone_rejected p then [Phone_must_be_digits] else [])"

definition pay :: "pay_env \<Rightarrow> body \<Rightarrow> server_state \<Rightarrow> api_body response \<times> server_state" where
  "pay env b st =
     (let a = get_field b ''amount'';
          p = get_field b ''phone'';
          ref = (case get_field b ''reference'' of
                   JUndefined \<Rightarrow> JStr (''REF-'' @ num_to_string (date_now env))
                 | v \<Rightarrow> v);
          errors = pay_errors a p
      in if errors \<noteq> [] then (\<lparr>status_code = 400, json = Errors errors\<rparr>, st)
         else (let i = cryptoRandomId (random env);
                   record = \<lparr>id' = i, amount = to_number a, phone = to_string p,
                             reference = ref, status = ''PENDING'',
                             createdAt = toISOString (clock env), completedAt = None\<rparr>
               in (\<lparr>status_code = 200, json = OkPayment record\<rparr>,
                   st\<lparr>payments := (payments st)(i \<mapsto> record), timers := timers st @ [i]\<rparr>)))"



definition get_status :: "string \<Rightarrow> server_state \<Rightarrow> api_body response \<times> server_state" where
  "get_status i st =
     (case payments st i of
        None \<Rightarrow> (\<lparr>status_code = 404, json = Error ''Not found''\<rparr>, st)
      | Some record \<Rightarrow> (\<lparr>status_code = 200, json = OkPayment record\<rparr>, st))"





section \<open>index.js: the push gateway\<close>

text \<open>The configuration is a parameter (the check at startup that key, secret and passkey
  are present is not modelled). The handlers modelled are \<open>/stk_push\<close> and \<open>/callback\<close> with
  the functions they call; what they print on the console is left out.\<close>

record config =
  sandbox :: bool
  consumerKey :: string
  consumerSecret :: string
  shortcode :: string
  passkey :: string
  callbackURL :: string
  accountRef :: string

record endpoints =
  auth :: string
  stkPush :: string

definition getEndpoints :: "config \<Rightarrow> endpoints" where
  "getEndpoints cfg =
     (if sandbox cfg then
        \<lparr>auth = ''https://sandbox.safaricom.co.ke/oauth/v1/generate?grant_type=client_credentials'',
         stkPush = ''https://sandbox.safaricom.co.ke/mpesa/stkpush/v1/processrequest''\<rparr>
      else
        \<lparr>auth = ''https://api.safaricom.co.ke/oauth/v1/generate?grant_type=client_credentials'',
         stkPush = ''https://api.safaricom.co.ke/mpesa/stkpush/v1/processrequest''\<rparr>)"

record stk_payload =
  BusinessShortCode :: string
  Password :: string
  Timestamp :: string
  TransactionType :: string
  Amount :: int
  PartyA :: jsval
  PartyB :: string
  PhoneNumber :: jsval
  CallBackURL :: string
  AccountReference :: string
  TransactionDesc :: string

datatype http_request =
    Get string "(string \<times> string) list"
  | Post string stk_payload "(string \<times> string) list"

text \<open>An entry of a log file is the timestamp and the fields of the data logged. The body
  of a callback is opaque to the gateway and is kept as its text.\<close>

datatype log_data =
    RequestData jsval int
  | CallbackData string string

record log_entry =
  timestamp :: string
  data :: log_data

text \<open>What the gateway changes outside itself: the entries appended to its log files
  (file name and entry, in order) and the requests sent to the provider.\<close>

record world =
  logs :: "(string \<times> log_entry) list"
  sent :: "http_request list"

text \<open>What an HTTP call comes back with: a response whose \<open>data\<close> is an object, or an error
  with \<open>error.response?.data?.errorMessage\<close> (\<open>undefined\<close> when there is none) and
  \<open>error.message\<close>.\<close>

datatype axios_result = Resolved body | Rejected jsval string

text \<open>What one run of a handler reads from outside: the time values of the two
  \<open>new Date()\<close> calls, whether \<open>appendFileSync\<close> throws (and its message), and the results of
  the two HTTP calls.\<close>

record gateway_env =
  log_clock :: int
  push_clock :: int
  fs_error :: "string option"
  auth_result :: axios_result
  push_result :: axios_result

text \<open>A thrown \<open>Error\<close> is its message.\<close>

definition writeLog :: "gateway_env \<Rightarrow> string \<Rightarrow> log_data \<Rightarrow> world \<Rightarrow> string + world" where
  "writeLog env type d w =
     (let entry = \<lparr>timestamp = toISOString (log_clock env), data = d\<rparr>
      in (case fs_error env of
            Some msg \<Rightarrow> Inl msg
          | None \<Rightarrow> Inr (w\<lparr>logs := logs w @ [(type @ ''_log.json'', entry)]\<rparr>)))"

definition error_text :: "jsval \<Rightarrow> string \<Rightarrow> string" where
  "error_text errorMessage msg = (if to_boolean errorMessage then to_string errorMessage else msg)"

definition getAccessToken :: "config \<Rightarrow> gateway_env \<Rightarrow> world \<Rightarrow> (string + jsval) \<times> world" where
  "getAccessToken cfg env w =
     (let basic = base64 (consumerKey cfg @ '':'' @ consumerSecret cfg);
          w1 = w\<lparr>sent := sent w @ [Get (auth (getEndpoints cfg))
                   [(''Authorization'', ''Basic '' @ basic), (''Content-Type'', ''application/json'')]]\<rparr>
      in (case auth_result env of
            Resolved d \<Rightarrow>
              (if \<not> to_boolean (get_field d ''access_token'')
               then (Inl (''Authentication failed: ''
                           @ error_text JUndefined ''Failed to obtain access token''), w1)
               else (Inr (get_field d ''access_token''), w1))
          | Rejected em msg \<Rightarrow> (Inl (''Authentication failed: '' @ error_text em msg), w1)))"

definition stk_timestamp :: "int \<Rightarrow> string" where
  "stk_timestamp now =
     takeWhile (\<lambda>c. c \<noteq> CHR ''.'') (filter (\<lambda>c. c \<noteq> CHR ''-'' \<and> c \<noteq> CHR '':'') (toISOString now))"

definition stk_request :: "config \<Rightarrow> int \<Rightarrow> jsval \<Rightarrow> int \<Rightarrow> stk_payload" where
  "stk_request cfg now ph amt =
     (let ts = stk_timestamp now;
          password = base64 (shortcode cfg @ passkey cfg @ ts)
      in \<lparr>BusinessShortCode = shortcode cfg, Password = password, Timestamp = ts,
          TransactionType = ''CustomerBuyGoodsOnline'', Amount = amt, PartyA = ph,
          PartyB = shortcode cfg, PhoneNumber = ph, CallBackURL = callbackURL cfg,
          AccountReference = accountRef cfg, TransactionDesc = ''HELB Disbursement''\<rparr>)"

definition initiateSTKPush ::
  "config \<Rightarrow> gateway_env \<Rightarrow> jsval \<Rightarrow> jsval \<Rightarrow> int \<Rightarrow> world \<Rightarrow> (string + body) \<times> world" where
  "initiateSTKPush cfg env accessToken ph amt w =
     (let payload = stk_request cfg (push_clock env) ph amt;
          w1 = w\<lparr>sent := sent w @ [Post (stkPush (getEndpoints cfg)) payload
                   [(''Authorization'', ''Bearer '' @ to_string accessToken),
                    (''Content-Type'', ''application/json'')]]\<rparr>
      in (case push_result env of
            Resolved d \<Rightarrow> (Inr d, w1)
          | Rejected em msg \<Rightarrow> (Inl (''STK push failed: '' @ error_text em msg), w1)))"

datatype stk_body =
    StkOk jsval jsval string
  | StkError jsval

text \<open>The \<open>/stk_push\<close> handler, in two parts: what it does once the input has passed
  validation (source lines 161 to 181, inside the handler's \<open>try\<close>, whose \<open>catch\<close> answers 500
  with the message of the error), and the handler itself.\<close>

definition stk_forward ::
  "config \<Rightarrow> gateway_env \<Rightarrow> jsval \<Rightarrow> int \<Rightarrow> world \<Rightarrow> stk_body response \<times> world" where
  "stk_forward cfg env ph amountNum w =
     (case writeLog env ''request'' (RequestData ph amountNum) w of
        Inl msg \<Rightarrow> (\<lparr>status_code = 500, json = StkError (JStr msg)\<rparr>, w)
      | Inr w1 \<Rightarrow>
          (case getAccessToken cfg env w1 of
             (Inl msg, w2) \<Rightarrow> (\<lparr>status_code = 500, json = StkError (JStr msg)\<rparr>, w2)
           | (Inr accessToken, w2) \<Rightarrow>
               (case initiateSTKPush cfg env accessToken ph amountNum w2 of
                  (Inl msg, w3) \<Rightarrow> (\<lparr>status_code = 500, json = StkError (JStr msg)\<rparr>, w3)
                | (Inr stkResponse, w3) \<Rightarrow>
                    (if get_field stkResponse ''ResponseCode'' = JStr ''0'' then
                       (\<lparr>status_code = 200,
                         json = StkOk (get_field stkResponse ''CheckoutRequestID'')
                                  (get_field stkResponse ''ResponseCode'')
                                  ''STK push initiated successfully''\<rparr>, w3)
                     else
                       (\<lparr>status_code = 500,
                         json = StkError
                           (if to_boolean (get_field stkResponse ''ResponseDescription'')
                            then get_field stkResponse ''ResponseDescription''
                            else JStr ''STK push failed'')\<rparr>, w3)))))"

definition stk_push :: "config \<Rightarrow> gateway_env \<Rightarrow> body \<Rightarrow> world \<Rightarrow> stk_body response \<times> world" where
  "stk_push cfg env b w =
     (let ph = get_field b ''phone''; a = get_field b ''amount''
      in if \<not> to_boolean ph \<or> \<not> to_boolean a then
           (\<lparr>status_code = 400, json = StkError (JStr ''Missing phone or amount'')\<rparr>, w)
         else if \<not> regex_test provider_phone_re (to_string ph) then
           (\<lparr>status_code = 400,
             json = StkError (JStr ''Invalid phone format. Use format: 2547XXXXXXXX'')\<rparr>, w)
         else (case parseInt a of
                 None \<Rightarrow>
                   (\<lparr>status_code = 400,
                     json = StkError (JStr ''Invalid amount. Must be between 1 and 150,000'')\<rparr>, w)
               | Some amountNum \<Rightarrow>
                   (if amountNum \<le> 0 \<or> amountNum > 150000 then
                      (\<lparr>status_code = 400,
                        json = StkError (JStr ''Invalid amount. Must be between 1 and 150,000'')\<rparr>, w)
                    else stk_forward cfg env ph amountNum w)))"

text \<open>The callback handler: the request carries the caller's address and the body.\<close>

record callback_request =
  ip :: string
  callbackData :: string

record ack =
  ResultCode :: nat
  ResultDesc :: string

definition callback :: "gateway_env \<Rightarrow> callback_request \<Rightarrow> world \<Rightarrow> ack response \<times> world" where
  "callback env req w =
     (case writeLog env ''callback'' (CallbackData (ip req) (callbackData req)) w of
        Inr w1 \<Rightarrow>
          (\<lparr>status_code = 200,
            json = \<lparr>ResultCode = 0, ResultDesc = ''Callback received successfully''\<rparr>\<rparr>, w1)
      | Inl err \<Rightarrow>
          (\<lparr>status_code = 500,
            json = \<lparr>ResultCode = 1, ResultDesc = ''Error processing callback''\<rparr>\<rparr>, w))"

section \<open>The specification's predicates\<close>

text \<open>The shapes and ranges the specification names, written from its words: a phone of
  the generic profile is an optional leading \<open>+\<close> followed by 7 to 15 digits; a phone of the
  provider profile is \<open>2547\<close> followed by 8 digits; an amount of the generic profile is a
  number strictly greater than zero; an amount of the provider profile is between 1 and
  150000.\<close>

definition spec_generic_phone :: "string \<Rightarrow> bool" where
  "spec_generic_phone s =
     (let ds = (case s of [] \<Rightarrow> s | c # r \<Rightarrow> (if c = CHR ''+'' then r else s))
      in 7 \<le> length ds \<and> length ds \<le> 15 \<and> list_all is_digit ds)"

definition spec_provider_phone :: "string \<Rightarrow> bool" where
  "spec_provider_phone s =
     (take 4 s = ''2547'' \<and> length (drop 4 s) = 8 \<and> list_all is_digit (drop 4 s))"

fun positive :: "jsnum \<Rightarrow> bool" where
  "positive NaN = False"
| "positive PosInf = True"
| "positive NegInf = False"
| "positive (Fin r) = (0 < r)"

definition spec_provider_amount :: "jsval \<Rightarrow> bool" where
  "spec_provider_amount a = (case parseInt a of None \<Rightarrow> False | Some n \<Rightarrow> 1 \<le> n \<and> n \<le> 150000)"





text \<open>The violations of the provider profile, as the handler tests them.\<close>

definition stk_phone_invalid :: "jsval \<Rightarrow> bool" where
  "stk_phone_invalid ph = (\<not> to_boolean ph \<or> \<not> regex_test provider_phone_re (to_string ph))"

definition stk_amount_invalid :: "jsval \<Rightarrow> bool" where
  "stk_amount_invalid a =
     (\<not> to_boolean a \<or> (case parseInt a of None \<Rightarrow> True | Some n \<Rightarrow> n \<le> 0 \<or> n > 150000))"

section \<open>Sample inputs\<close>

text \<open>A request body with the two fields of a payment request, and the configuration,
  environment and empty outside world at which the theorems below are instantiated.\<close>

definition request_body :: "jsval \<Rightarrow> jsval \<Rightarrow> body" where
  "request_body ph a = [''phone'' \<mapsto> ph, ''amount'' \<mapsto> a]"

definition sample_config :: config where
  "sample_config =
     \<lparr>sandbox = True, consumerKey = ''key'', consumerSecret = ''secret'', shortcode = ''174379'',
      passkey = ''passkey'', callbackURL = ''http://localhost:3000/callback'',
      accountRef = ''HELB Disbursement''\<rparr>"

definition sample_env :: gateway_env where
  "sample_env =
     \<lparr>log_clock = 1700000000000, push_clock = 1700000000000, fs_error = None,
      auth_result = Resolved [''access_token'' \<mapsto> JStr ''token''],
      push_result = Resolved [''ResponseCode'' \<mapsto> JStr ''0'',
                              ''CheckoutRequestID'' \<mapsto> JStr ''ws_CO_1'']\<rparr>"

definition empty_world :: world where
  "empty_world = \<lparr>logs = [], sent = []\<rparr>"




definition sample_pay_env :: pay_env where
  "sample_pay_env = \<lparr>date_now = 1700000000000, clock = 1700000000000, random = (\<lambda>k. 0)\<rparr>"

section \<open>Auxiliary facts\<close>

subsection \<open>Digits and number printing\<close>

lemma digit_char_digit: "digit_char k \<in> set ''0123456789''"
  unfolding digit_char_def by (rule nth_mem) simp

lemma dec_digits: "set (dec n) \<subseteq> set ''0123456789''"
proof (induction n rule: dec.induct)
  case (1 n)
  show ?case
  proof (cases "n < 10")
    case True
    then show ?thesis using digit_char_digit [of n] by (subst dec.simps) simp
  next
    case False
    then show ?thesis using 1 digit_char_digit [of "n mod 10"] by (subst dec.simps) simp
  qed
qed

lemma dec_0: "dec 0 = ''0''"
  by (simp add: dec.simps digit_char_def)

lemma num_to_string_0: "num_to_string 0 = ''0''"
  by (simp add: num_to_string_def nat_to_string_def dec_0)

subsection \<open>Regular expressions\<close>

lemma iter_digit:
  "set (iter (rmatch Digit) k s) =
     (if k \<le> length s \<and> list_all is_digit (take k s) then {drop k s} else {})"
proof (induction k arbitrary: s)
  case 0
  then show ?case by simp
next
  case (Suc k)
  show ?case
  proof (cases s)
    case Nil
    then show ?thesis by simp
  next
    case (Cons x r)
    then show ?thesis using Suc.IH [of r] by simp
  qed
qed

lemma iter_digit_nil:
  "[] \<in> set (iter (rmatch Digit) k s) \<longleftrightarrow> k = length s \<and> list_all is_digit s"
proof (cases "k \<le> length s \<and> list_all is_digit (take k s)")
  case True
  then have "[] \<in> set (iter (rmatch Digit) k s) \<longleftrightarrow> drop k s = []"
    by (simp add: iter_digit)
  also have "\<dots> \<longleftrightarrow> k = length s" using True by auto
  finally show ?thesis using True by auto
next
  case False
  then have "set (iter (rmatch Digit) k s) = {}"
    unfolding iter_digit by (rule if_not_P)
  then have "[] \<notin> set (iter (rmatch Digit) k s)"
    by simp
  moreover have "\<not> (k = length s \<and> list_all is_digit s)" using False by auto
  ultimately show ?thesis by simp
qed

lemma rep_digit_full:
  "[] \<in> set (rmatch (Rep m n Digit) s) \<longleftrightarrow> m \<le> length s \<and> length s \<le> n \<and> list_all is_digit s"
proof -
  have "[] \<in> set (rmatch (Rep m n Digit) s) \<longleftrightarrow>
        (\<exists>k. m \<le> k \<and> k \<le> n \<and> [] \<in> set (iter (rmatch Digit) k s))"
    by auto
  then show ?thesis unfolding iter_digit_nil by blast
qed

lemma cat_chr_full:
  "[] \<in> set (rmatch (Cat (Chr c) r) s) \<longleftrightarrow> (\<exists>t. s = c # t \<and> [] \<in> set (rmatch r t))"
  by (cases s) auto

lemma generic_phone_test:
  "regex_test generic_phone_re s \<longleftrightarrow>
     (7 \<le> length s \<and> length s \<le> 15 \<and> list_all is_digit s)
     \<or> (\<exists>t. s = CHR ''+'' # t \<and> 7 \<le> length t \<and> length t \<le> 15 \<and> list_all is_digit t)"
proof -
  have "regex_test generic_phone_re s \<longleftrightarrow>
          [] \<in> set (rmatch (Rep 7 15 Digit) s)
          \<or> (\<exists>t. s = CHR ''+'' # t \<and> [] \<in> set (rmatch (Rep 7 15 Digit) t))"
    unfolding regex_test_def generic_phone_re_def by (cases s) auto
  then show ?thesis unfolding rep_digit_full by simp
qed

lemma provider_phone_test:
  "regex_test provider_phone_re s \<longleftrightarrow>
     (\<exists>t. s = ''2547'' @ t \<and> length t = 8 \<and> list_all is_digit t)"
  unfolding regex_test_def provider_phone_re_def cat_chr_full rep_digit_full by auto

lemma falsy_not_generic_phone:
  "\<not> to_boolean p \<Longrightarrow> \<not> regex_test generic_phone_re (to_string p)"
  by (cases p) (auto simp: generic_phone_test num_to_string_0 is_digit_def)

lemma falsy_not_provider_phone:
  "\<not> to_boolean p \<Longrightarrow> \<not> regex_test provider_phone_re (to_string p)"
  by (cases p) (auto simp: provider_phone_test num_to_string_0)

lemma phone_rejected_iff:
  "phone_rejected p \<longleftrightarrow> \<not> regex_test generic_phone_re (to_string p)"
  using falsy_not_generic_phone [of p] by (auto simp: phone_rejected_def)

lemma generic_phone_spec: "regex_test generic_phone_re s = spec_generic_phone s"
proof (cases s)
  case Nil
  then show ?thesis by (simp add: generic_phone_test spec_generic_phone_def)
next
  case (Cons c r)
  show ?thesis
  proof (cases "c = CHR ''+''")
    case True
    then show ?thesis using Cons
      by (auto simp: generic_phone_test spec_generic_phone_def is_digit_def)
  next
    case False
    then show ?thesis using Cons
      by (simp add: generic_phone_test spec_generic_phone_def)
  qed
qed

lemma provider_phone_spec: "regex_test provider_phone_re s = spec_provider_phone s"
proof -
  have "(\<exists>t. s = ''2547'' @ t \<and> length t = 8 \<and> list_all is_digit t) = spec_provider_phone s"
    unfolding spec_provider_phone_def
  proof
    assume "\<exists>t. s = ''2547'' @ t \<and> length t = 8 \<and> list_all is_digit t"
    then show "take 4 s = ''2547'' \<and> length (drop 4 s) = 8 \<and> list_all is_digit (drop 4 s)"
      by auto
  next
    assume a: "take 4 s = ''2547'' \<and> length (drop 4 s) = 8 \<and> list_all is_digit (drop 4 s)"
    have "s = take 4 s @ drop 4 s" by simp
    with a have "s = ''2547'' @ drop 4 s" by simp
    with a show "\<exists>t. s = ''2547'' @ t \<and> length t = 8 \<and> list_all is_digit t" by blast
  qed
  then show ?thesis by (simp add: provider_phone_test)
qed

lemma amount_rejected_iff: "amount_rejected a = (\<not> positive (to_number a))"
proof (cases a)
  case (JStr s)
  then show ?thesis by (cases "string_to_number s") (auto simp: amount_rejected_def isNaN_def)
qed (auto simp: amount_rejected_def isNaN_def)

lemma parse_int_falsy:
  "\<not> to_boolean a \<Longrightarrow> parseInt a = None \<or> parseInt a = Some 0"
  by (cases a)
     (auto simp: parseInt_def parse_int_string_def num_to_string_0 is_ws_def is_digit_def
        radix_value_def digit_val_def)

lemma falsy_not_provider_amount: "\<not> to_boolean a \<Longrightarrow> \<not> spec_provider_amount a"
  using parse_int_falsy [of a] by (auto simp: spec_provider_amount_def)

lemma stk_forward_status: "status_code (fst (stk_forward cfg env ph n w)) \<in> {200, 500}"
  by (auto simp: stk_forward_def split: sum.splits prod.splits)

lemma stk_push_accepted:
  assumes "to_boolean (get_field b ''phone'')" "to_boolean (get_field b ''amount'')"
    "regex_test provider_phone_re (to_string (get_field b ''phone''))"
    "parseInt (get_field b ''amount'') = Some n" "1 \<le> n" "n \<le> 150000"
  shows "stk_push cfg env b w = stk_forward cfg env (get_field b ''phone'') n w"
  using assms by (simp add: stk_push_def Let_def)

lemma stk_push_missing:
  assumes "\<not> to_boolean (get_field b ''phone'') \<or> \<not> to_boolean (get_field b ''amount'')"
  shows "stk_push cfg env b w =
     (\<lparr>status_code = 400, json = StkError (JStr ''Missing phone or amount'')\<rparr>, w)"
  using assms by (auto simp add: stk_push_def Let_def)

lemma stk_push_bad_phone:
  assumes "to_boolean (get_field b ''phone'')" "to_boolean (get_field b ''amount'')"
    "\<not> regex_test provider_phone_re (to_string (get_field b ''phone''))"
  shows "stk_push cfg env b w =
     (\<lparr>status_code = 400, json = StkError (JStr ''Invalid phone format. Use format: 2547XXXXXXXX'')\<rparr>, w)"
  using assms by (simp add: stk_push_def Let_def)

lemma stk_push_bad_amount:
  assumes "to_boolean (get_field b ''phone'')" "to_boolean (get_field b ''amount'')"
    "regex_test provider_phone_re (to_string (get_field b ''phone''))"
    "\<not> spec_provider_amount (get_field b ''amount'')"
  shows "stk_push cfg env b w =
     (\<lparr>status_code = 400, json = StkError (JStr ''Invalid amount. Must be between 1 and 150,000'')\<rparr>, w)"
proof (cases "parseInt (get_field b ''amount'')")
  case None
  with assms show ?thesis by (simp add: stk_push_def Let_def)
next
  case (Some n)
  with assms(4) have "n \<le> 0 \<or> 150000 < n" by (auto simp: spec_provider_amount_def)
  with Some assms(1-3) show ?thesis by (simp add: stk_push_def Let_def)
qed

subsection \<open>Evaluation and the two validations\<close>

lemma request_body_fields [simp]:
  "get_field (request_body ph a) ''phone'' = ph"
  "get_field (request_body ph a) ''amount'' = a"
  "get_field (request_body ph a) ''reference'' = JUndefined"
  by (simp_all add: request_body_def get_field_def)

lemma dec_1: "dec 1 = ''1''" "dec (Suc 0) = ''1''"
  by (simp_all add: dec.simps digit_char_def)

lemma dec_numeral:
  "dec (numeral k) =
     (if numeral k < (10::nat) then [digit_char (numeral k)]
      else dec (numeral k div 10) @ [digit_char (numeral k mod 10)])"
  by (rule dec.simps)

lemmas parse_int_eval =
  parseInt_def parse_int_string_def num_to_string_def nat_to_string_def dec_0 dec_1 dec_numeral
  digit_char_def is_ws_def is_digit_def radix_value_def digit_val_def

lemma parse_int_examples:
  "parseInt (JNum 0) = Some 0"
  "parseInt (JNum (- 5)) = Some (- 5)"
  "parseInt (JStr ''abc'') = None"
  "parseInt (JNum 150001) = Some 150001"
  "parseInt (JNum 150000) = Some 150000"
  "parseInt (JStr ''100.99'') = Some 100"
  "parseInt (JStr ''12abc'') = Some 12"
  by (simp_all add: parse_int_eval)

lemma phone_examples:
  "spec_generic_phone ''+254712345678''"
  "spec_provider_phone ''254712345678''"
  "\<not> spec_provider_phone ''071234567''"
  "\<not> spec_provider_phone ''+254712345678''"
  by (simp_all add: spec_generic_phone_def spec_provider_phone_def is_digit_def)

lemma stk_amount_invalid_iff: "stk_amount_invalid a = (\<not> spec_provider_amount a)"
  using falsy_not_provider_amount [of a]
  by (auto simp: stk_amount_invalid_def spec_provider_amount_def split: option.splits)

lemma stk_phone_invalid_iff:
  "stk_phone_invalid ph = (\<not> spec_provider_phone (to_string ph))"
  using falsy_not_provider_phone [of ph]
  by (auto simp: stk_phone_invalid_def provider_phone_spec)

lemma stk_push_valid:
  assumes "\<not> stk_phone_invalid (get_field b ''phone'')"
    and "parseInt (get_field b ''amount'') = Some n" and "1 \<le> n" and "n \<le> 150000"
  shows "stk_push cfg env b w = stk_forward cfg env (get_field b ''phone'') n w"
proof -
  have "spec_provider_amount (get_field b ''amount'')"
    using assms(2-4) by (simp add: spec_provider_amount_def)
  then have "to_boolean (get_field b ''amount'')"
    using falsy_not_provider_amount by blast
  with assms show ?thesis
    by (intro stk_push_accepted) (simp_all add: stk_phone_invalid_def)
qed

lemma stk_push_invalid:
  assumes "stk_phone_invalid (get_field b ''phone'') \<or> stk_amount_invalid (get_field b ''amount'')"
  shows "stk_push cfg env b w =
     (\<lparr>status_code = 400,
       json = StkError (JStr
         (if \<not> to_boolean (get_field b ''phone'') \<or> \<not> to_boolean (get_field b ''amount'')
          then ''Missing phone or amount''
          else if \<not> regex_test provider_phone_re (to_string (get_field b ''phone''))
          then ''Invalid phone format. Use format: 2547XXXXXXXX''
          else ''Invalid amount. Must be between 1 and 150,000''))\<rparr>, w)"
proof (cases "\<not> to_boolean (get_field b ''phone'') \<or> \<not> to_boolean (get_field b ''amount'')")
  case True
  then show ?thesis using stk_push_missing [OF True] by simp
next
  case truthy: False
  show ?thesis
  proof (cases "regex_test provider_phone_re (to_string (get_field b ''phone''))")
    case False
    then show ?thesis using truthy stk_push_bad_phone [of b cfg env w] by simp
  next
    case True
    with assms truthy have "stk_amount_invalid (get_field b ''amount'')"
      by (auto simp: stk_phone_invalid_def)
    then have "\<not> spec_provider_amount (get_field b ''amount'')"
      by (simp add: stk_amount_invalid_iff)
    then show ?thesis using truthy True stk_push_bad_amount [of b cfg env w] by simp
  qed
qed

lemma stk_push_400_iff:
  "status_code (fst (stk_push cfg env b w)) = 400 \<longleftrightarrow>
     stk_phone_invalid (get_field b ''phone'') \<or> stk_amount_invalid (get_field b ''amount'')"
proof (cases "stk_phone_invalid (get_field b ''phone'') \<or> stk_amount_invalid (get_field b ''amount'')")
  case True
  then show ?thesis using stk_push_invalid [OF True] by simp
next
  case False
  then have a: "spec_provider_amount (get_field b ''amount'')"
    by (simp add: stk_amount_invalid_iff)
  then obtain n where n: "parseInt (get_field b ''amount'') = Some n" "1 \<le> n" "n \<le> 150000"
    by (auto simp: spec_provider_amount_def split: option.splits)
  from False have "\<not> stk_phone_invalid (get_field b ''phone'')" by simp
  from stk_push_valid [OF this n]
  have "stk_push cfg env b w = stk_forward cfg env (get_field b ''phone'') n w" .
  then show ?thesis using False stk_forward_status [of cfg env "get_field b ''phone''" n w] by auto
qed

lemma pay_rejected:
  assumes "pay_errors (get_field b ''amount'') (get_field b ''phone'') \<noteq> []"
  shows "pay env b st =
    (\<lparr>status_code = 400, json = Errors (pay_errors (get_field b ''amount'') (get_field b ''phone''))\<rparr>, st)"
  using assms by (simp add: pay_def Let_def)

lemma pay_errors_empty_iff:
  "pay_errors a p = [] \<longleftrightarrow> \<not> amount_rejected a \<and> \<not> phone_rejected p"
  by (simp add: pay_errors_def)



lemma provider_amount_examples:
  "\<not> spec_provider_amount (JNum 0)"
  "\<not> spec_provider_amount (JNum (- 5))"
  "\<not> spec_provider_amount (JStr ''abc'')"
  "\<not> spec_provider_amount (JNum 150001)"
  "spec_provider_amount (JNum 150000)"
  "spec_provider_amount (JStr ''100.99'')"
  "spec_provider_amount (JStr ''12abc'')"
  by (simp_all add: spec_provider_amount_def parse_int_examples)

subsection \<open>The push timestamp\<close>

lemma dec_no_dot: "CHR ''.'' \<notin> set (dec n)"
proof
  assume "CHR ''.'' \<in> set (dec n)"
  then have "CHR ''.'' \<in> set ''0123456789''" using dec_digits [of n] by blast
  then show False by simp
qed

lemma pad_no_dot: "CHR ''.'' \<notin> set (pad w n)"
  using dec_no_dot [of n] by (simp add: pad_def)

lemma year_string_no_dot: "CHR ''.'' \<notin> set (year_string y)"
  using pad_no_dot [of 4 "nat y"] pad_no_dot [of 6 "nat \<bar>y\<bar>"]
  by (simp add: year_string_def)

lemma takeWhile_through:
  "\<forall>x\<in>set xs. P x \<Longrightarrow> takeWhile P (xs @ ys) = xs @ takeWhile P ys"
  by (induction xs) auto

lemma stk_timestamp_has_T: "CHR ''T'' \<in> set (stk_timestamp now)"
proof -
  obtain y m d where c: "civil_from_days (now div 86400000) = (y, m, d)"
    by (cases "civil_from_days (now div 86400000)") auto
  define front where "front = filter (\<lambda>c. c \<noteq> CHR ''-'' \<and> c \<noteq> CHR '':'')
      (year_string y @ ''-'' @ pad 2 (nat m) @ ''-'' @ pad 2 (nat d))"
  have "CHR ''.'' \<notin> set front"
    using year_string_no_dot [of y] pad_no_dot [of 2 "nat m"] pad_no_dot [of 2 "nat d"]
    unfolding front_def by simp
  then have nodot: "\<forall>x\<in>set front. x \<noteq> CHR ''.''"
    by blast
  have "\<exists>rest. filter (\<lambda>c. c \<noteq> CHR ''-'' \<and> c \<noteq> CHR '':'') (toISOString now) = front @ CHR ''T'' # rest"
    unfolding toISOString_def front_def by (simp add: c Let_def)
  then obtain rest where
    "filter (\<lambda>c. c \<noteq> CHR ''-'' \<and> c \<noteq> CHR '':'') (toISOString now) = front @ CHR ''T'' # rest" ..
  then have "stk_timestamp now = front @ CHR ''T'' # takeWhile (\<lambda>c. c \<noteq> CHR ''.'') rest"
    unfolding stk_timestamp_def using nodot by (simp add: takeWhile_through)
  then show ?thesis by simp
qed

lemma stk_timestamp_not_digits: "\<not> list_all is_digit (stk_timestamp now)"
proof
  assume "list_all is_digit (stk_timestamp now)"
  then have "is_digit CHR ''T''"
    using stk_timestamp_has_T [of now] by (simp add: list_all_iff)
  then show False by (simp add: is_digit_def)
qed

lemma stk_timestamp_example: "stk_timestamp 1700000000000 = ''20231114T221320''"
  by code_simp

subsection \<open>Random ids and the store\<close>









lemma pay_accepted:
  assumes "\<not> amount_rejected (get_field b ''amount'')" and "\<not> phone_rejected (get_field b ''phone'')"
  shows "pay env b st =
    (let r = \<lparr>id' = cryptoRandomId (random env), amount = to_number (get_field b ''amount''),
               phone = to_string (get_field b ''phone''),
               reference = (case get_field b ''reference'' of
                   JUndefined \<Rightarrow> JStr (''REF-'' @ num_to_string (date_now env))
                 | v \<Rightarrow> v),
               status = ''PENDING'', createdAt = toISOString (clock env), completedAt = None\<rparr>
     in (\<lparr>status_code = 200, json = OkPayment r\<rparr>,
         st\<lparr>payments := (payments st)(id' r \<mapsto> r), timers := timers st @ [id' r]\<rparr>))"
  using assms by (simp add: pay_def Let_def pay_errors_def)
















section \<open>The callback handler\<close>

text \<open>
  C1 (as stated): for every invocation of the callback handler, also when logging throws,
  the body is the fixed acknowledgment and the status is never an error status. This fails:
  when appending to the log file throws, the handler answers with status 500.
\<close>

theorem callback_status_500:
  "fst (callback
      \<lparr>log_clock = 1700000000000, push_clock = 1700000000000,
        fs_error = Some ''ENOSPC: no space left on device, write'',
        auth_result = Resolved Map.empty, push_result = Resolved Map.empty\<rparr>
      \<lparr>ip = ''196.201.214.200'', callbackData = ''{}''\<rparr>
      \<lparr>logs = [], sent = []\<rparr>)
     = \<lparr>status_code = 500,
         json = \<lparr>ResultCode = 1, ResultDesc = ''Error processing callback''\<rparr>\<rparr>"
  by (simp add: callback_def writeLog_def)

text \<open>
  C1 (amended): for every invocation of the callback handler the body is the fixed
  acknowledgment: code 0 with \<open>Callback received successfully\<close> and status 200 when the
  callback was logged, code 1 with \<open>Error processing callback\<close> and status 500 when logging
  threw. No other answer is given.
\<close>

theorem callback_response:
  "fst (callback env req w) =
     (if fs_error env = None
      then \<lparr>status_code = 200,
             json = \<lparr>ResultCode = 0, ResultDesc = ''Callback received successfully''\<rparr>\<rparr>
      else \<lparr>status_code = 500,
             json = \<lparr>ResultCode = 1, ResultDesc = ''Error processing callback''\<rparr>\<rparr>)"
  by (cases "fs_error env") (simp_all add: callback_def writeLog_def)

section \<open>The status lookup\<close>

text \<open>
  C7: for every id, \<open>getStatus\<close> answers 404 with \<open>Not found\<close> when the store holds no record
  under the id, and 200 with exactly the stored record when it holds one; in both cases
  the store after the call is the store before it.
\<close>

theorem get_status_lookup:
  "(payments st i = None \<longrightarrow>
      get_status i st = (\<lparr>status_code = 404, json = Error ''Not found''\<rparr>, st))
   \<and> (\<forall>r. payments st i = Some r \<longrightarrow>
      get_status i st = (\<lparr>status_code = 200, json = OkPayment r\<rparr>, st))
   \<and> snd (get_status i st) = st"
  by (cases "payments st i") (simp_all add: get_status_def)

theorem get_status_lookup_witness:
  "get_status ''nobody'' init_state = (\<lparr>status_code = 404, json = Error ''Not found''\<rparr>, init_state)
   \<and> get_status ''k1''
        \<lparr>payments = [''k1'' \<mapsto>
            \<lparr>id' = ''k1'', amount = Fin 100, phone = ''+254712345678'',
              reference = JStr ''REF-1700000000000'', status = ''PENDING'',
              createdAt = ''2023-11-14T22:13:20.000Z'', completedAt = None\<rparr>],
          timers = [''k1'']\<rparr>
       = (\<lparr>status_code = 200,
            json = OkPayment
              \<lparr>id' = ''k1'', amount = Fin 100, phone = ''+254712345678'',
                reference = JStr ''REF-1700000000000'', status = ''PENDING'',
                createdAt = ''2023-11-14T22:13:20.000Z'', completedAt = None\<rparr>\<rparr>,
          \<lparr>payments = [''k1'' \<mapsto>
            \<lparr>id' = ''k1'', amount = Fin 100, phone = ''+254712345678'',
              reference = JStr ''REF-1700000000000'', status = ''PENDING'',
              createdAt = ''2023-11-14T22:13:20.000Z'', completedAt = None\<rparr>],
            timers = [''k1'']\<rparr>)"
proof -
  have "payments init_state ''nobody'' = None" by (simp add: init_state_def)
  with get_status_lookup [of init_state "''nobody''"]
    get_status_lookup [of "\<lparr>payments = [''k1'' \<mapsto>
            \<lparr>id' = ''k1'', amount = Fin 100, phone = ''+254712345678'',
              reference = JStr ''REF-1700000000000'', status = ''PENDING'',
              createdAt = ''2023-11-14T22:13:20.000Z'', completedAt = None\<rparr>],
          timers = [''k1'']\<rparr>" "''k1''"]
  show ?thesis by simp
qed

section \<open>Validation\<close>

text \<open>
  C8: phone validation in both profiles. The generic check rejects a value exactly when its
  string is not an optional leading \<open>+\<close> followed by 7 to 15 digits: the handler then
  answers 400 and leaves the state alone, and with such a phone and a positive amount it
  answers 200. The provider check rejects a value exactly when its string is not \<open>2547\<close>
  followed by 8 digits: the handler then answers 400 and touches nothing, and with such a
  phone and an amount in range it does not answer 400. \<open>+254712345678\<close> passes the generic
  check; \<open>254712345678\<close> passes the provider check; \<open>071234567\<close> and \<open>+254712345678\<close> fail
  the provider check.
\<close>

theorem phone_validation:
  "phone_rejected p = (\<not> spec_generic_phone (to_string p))
   \<and> stk_phone_invalid p = (\<not> spec_provider_phone (to_string p))
   \<and> (\<not> spec_generic_phone (to_string (get_field b ''phone'')) \<longrightarrow>
        status_code (fst (pay penv b st)) = 400 \<and> snd (pay penv b st) = st)
   \<and> (spec_generic_phone (to_string (get_field b ''phone''))
        \<and> positive (to_number (get_field b ''amount'')) \<longrightarrow>
        status_code (fst (pay penv b st)) = 200)
   \<and> (\<not> spec_provider_phone (to_string (get_field b ''phone'')) \<longrightarrow>
        status_code (fst (stk_push cfg env b w)) = 400 \<and> snd (stk_push cfg env b w) = w)
   \<and> (spec_provider_phone (to_string (get_field b ''phone''))
        \<and> spec_provider_amount (get_field b ''amount'') \<longrightarrow>
        status_code (fst (stk_push cfg env b w)) \<noteq> 400)
   \<and> \<not> phone_rejected (JStr ''+254712345678'')
   \<and> \<not> stk_phone_invalid (JStr ''254712345678'')
   \<and> stk_phone_invalid (JStr ''071234567'')
   \<and> stk_phone_invalid (JStr ''+254712345678'')"
proof -
  have g: "phone_rejected v = (\<not> spec_generic_phone (to_string v))" for v
    by (simp add: phone_rejected_iff generic_phone_spec)
  have p: "stk_phone_invalid v = (\<not> spec_provider_phone (to_string v))" for v
    by (simp add: stk_phone_invalid_iff)
  have gr: "status_code (fst (pay penv b st)) = 400 \<and> snd (pay penv b st) = st"
    if "\<not> spec_generic_phone (to_string (get_field b ''phone''))"
  proof -
    from that have "pay_errors (get_field b ''amount'') (get_field b ''phone'') \<noteq> []"
      by (simp add: pay_errors_empty_iff g)
    from pay_rejected [OF this] show ?thesis by simp
  qed
  have ga: "status_code (fst (pay penv b st)) = 200"
    if "spec_generic_phone (to_string (get_field b ''phone''))"
       "positive (to_number (get_field b ''amount''))"
  proof -
    from that have "\<not> amount_rejected (get_field b ''amount'')"
      and "\<not> phone_rejected (get_field b ''phone'')"
      by (simp_all add: amount_rejected_iff g)
    from pay_accepted [OF this] show ?thesis by (simp add: Let_def)
  qed
  have r: "status_code (fst (stk_push cfg env b w)) = 400 \<and> snd (stk_push cfg env b w) = w"
    if "\<not> spec_provider_phone (to_string (get_field b ''phone''))"
  proof -
    from that have "stk_phone_invalid (get_field b ''phone'')" by (simp add: p)
    then have "stk_phone_invalid (get_field b ''phone'') \<or> stk_amount_invalid (get_field b ''amount'')" ..
    from stk_push_invalid [OF this] show ?thesis by simp
  qed
  have a: "status_code (fst (stk_push cfg env b w)) \<noteq> 400"
    if "spec_provider_phone (to_string (get_field b ''phone''))"
       "spec_provider_amount (get_field b ''amount'')"
    using that by (simp add: stk_push_400_iff p stk_amount_invalid_iff)
  have ex: "\<not> phone_rejected (JStr ''+254712345678'')" "\<not> stk_phone_invalid (JStr ''254712345678'')"
    "stk_phone_invalid (JStr ''071234567'')" "stk_phone_invalid (JStr ''+254712345678'')"
    by (simp_all add: g p phone_examples)
  show ?thesis
    using g [of p] p [of p] gr ga r a ex by blast
qed

theorem phone_validation_witness:
  "status_code (fst (stk_push sample_config sample_env
       (request_body (JStr ''071234567'') (JNum 150000)) empty_world)) = 400
   \<and> snd (stk_push sample_config sample_env
       (request_body (JStr ''071234567'') (JNum 150000)) empty_world) = empty_world
   \<and> status_code (fst (stk_push sample_config sample_env
       (request_body (JStr ''254712345678'') (JNum 150000)) empty_world)) \<noteq> 400
   \<and> status_code (fst (pay sample_pay_env
       (request_body (JStr ''071'') (JNum 150000)) init_state)) = 400
   \<and> status_code (fst (pay sample_pay_env
       (request_body (JStr ''+254712345678'') (JNum 150000)) init_state)) = 200"
proof -
  have a: "spec_provider_amount (JNum 150000)" "positive (to_number (JNum 150000))"
    by (simp_all add: spec_provider_amount_def parse_int_examples)
  have n: "\<not> spec_generic_phone ''071''"
    by (simp add: spec_generic_phone_def)
  show ?thesis
    using phone_validation [of "JStr ''071234567''" "request_body (JStr ''071234567'') (JNum 150000)"
        sample_pay_env init_state sample_config sample_env empty_world]
      phone_validation [of "JStr ''254712345678''" "request_body (JStr ''254712345678'') (JNum 150000)"
        sample_pay_env init_state sample_config sample_env empty_world]
      phone_validation [of "JStr ''071''" "request_body (JStr ''071'') (JNum 150000)"
        sample_pay_env init_state sample_config sample_env empty_world]
      phone_validation [of "JStr ''+254712345678''" "request_body (JStr ''+254712345678'') (JNum 150000)"
        sample_pay_env init_state sample_config sample_env empty_world]
      a n phone_examples
    by simp
qed







text \<open>
  C3 (as stated): when amount and phone are both invalid, all violated rules are reported
  together, in both profiles. This fails in the provider profile: with the phone
  \<open>071234567\<close> and the amount \<open>abc\<close>, both invalid, the answer holds the phone message alone.
\<close>

theorem provider_reports_first_violation_only:
  "stk_phone_invalid (JStr ''071234567'')
   \<and> stk_amount_invalid (JStr ''abc'')
   \<and> fst (stk_push
        \<lparr>sandbox = True, consumerKey = ''key'', consumerSecret = ''secret'', shortcode = ''174379'',
          passkey = ''passkey'', callbackURL = ''http://localhost:3000/callback'',
          accountRef = ''HELB Disbursement''\<rparr>
        \<lparr>log_clock = 1700000000000, push_clock = 1700000000000, fs_error = None,
          auth_result = Resolved Map.empty, push_result = Resolved Map.empty\<rparr>
        [''phone'' \<mapsto> JStr ''071234567'', ''amount'' \<mapsto> JStr ''abc'']
        \<lparr>logs = [], sent = []\<rparr>)
      = \<lparr>status_code = 400,
          json = StkError (JStr ''Invalid phone format. Use format: 2547XXXXXXXX'')\<rparr>"
proof -
  have p: "stk_phone_invalid (JStr ''071234567'')"
    by (simp add: stk_phone_invalid_iff phone_examples)
  have a: "stk_amount_invalid (JStr ''abc'')"
    by (simp add: stk_amount_invalid_iff provider_amount_examples)
  have "stk_phone_invalid (get_field [''phone'' \<mapsto> JStr ''071234567'', ''amount'' \<mapsto> JStr ''abc''] ''phone'')
        \<or> stk_amount_invalid (get_field [''phone'' \<mapsto> JStr ''071234567'', ''amount'' \<mapsto> JStr ''abc''] ''amount'')"
    using p by (simp add: get_field_def)
  from stk_push_invalid [OF this] p a show ?thesis
    by (simp add: get_field_def stk_phone_invalid_def)
qed

text \<open>
  C3 (amended): when amount and phone are both invalid, the generic profile reports both
  violated rules together in one list in the single 400 response; the provider profile
  answers 400 with one message for the first check that fails: \<open>Missing phone or amount\<close>
  when either field is falsy, the phone format message otherwise.
\<close>

theorem all_violations_generic_first_violation_provider:
  "(amount_rejected (get_field b ''amount'') \<and> phone_rejected (get_field b ''phone'') \<longrightarrow>
      pay penv b st =
        (\<lparr>status_code = 400,
          json = Errors [Amount_must_be_a_positive_number, Phone_must_be_digits]\<rparr>, st))
   \<and> (stk_phone_invalid (get_field b' ''phone'') \<and> stk_amount_invalid (get_field b' ''amount'') \<longrightarrow>
      stk_push cfg env b' w =
        (\<lparr>status_code = 400,
          json = StkError (JStr
            (if \<not> to_boolean (get_field b' ''phone'') \<or> \<not> to_boolean (get_field b' ''amount'')
             then ''Missing phone or amount''
             else ''Invalid phone format. Use format: 2547XXXXXXXX''))\<rparr>, w))"
proof (intro conjI impI)
  assume a: "amount_rejected (get_field b ''amount'') \<and> phone_rejected (get_field b ''phone'')"
  then have e: "pay_errors (get_field b ''amount'') (get_field b ''phone'')
      = [Amount_must_be_a_positive_number, Phone_must_be_digits]"
    by (simp add: pay_errors_def)
  then have "pay_errors (get_field b ''amount'') (get_field b ''phone'') \<noteq> []" by simp
  from pay_rejected [OF this] e
  show "pay penv b st =
        (\<lparr>status_code = 400,
          json = Errors [Amount_must_be_a_positive_number, Phone_must_be_digits]\<rparr>, st)"
    by simp
next
  assume a: "stk_phone_invalid (get_field b' ''phone'') \<and> stk_amount_invalid (get_field b' ''amount'')"
  then have "stk_phone_invalid (get_field b' ''phone'') \<or> stk_amount_invalid (get_field b' ''amount'')"
    by simp
  from stk_push_invalid [OF this] a
  show "stk_push cfg env b' w =
        (\<lparr>status_code = 400,
          json = StkError (JStr
            (if \<not> to_boolean (get_field b' ''phone'') \<or> \<not> to_boolean (get_field b' ''amount'')
             then ''Missing phone or amount''
             else ''Invalid phone format. Use format: 2547XXXXXXXX''))\<rparr>, w)"
    by (auto simp: stk_phone_invalid_def)
qed

theorem all_violations_generic_first_violation_provider_witness:
  "pay \<lparr>date_now = 1700000000000, clock = 1700000000000, random = (\<lambda>k. 0)\<rparr>
      (request_body (JStr ''071'') (JNum 0)) init_state =
        (\<lparr>status_code = 400,
          json = Errors [Amount_must_be_a_positive_number, Phone_must_be_digits]\<rparr>, init_state)
   \<and> stk_push sample_config sample_env (request_body (JStr ''071234567'') (JStr ''abc'')) empty_world =
        (\<lparr>status_code = 400,
          json = StkError (JStr ''Invalid phone format. Use format: 2547XXXXXXXX'')\<rparr>, empty_world)"
proof -
  have g: "phone_rejected (JStr ''071'')" "amount_rejected (JNum 0)"
    by (simp_all add: phone_rejected_iff generic_phone_spec spec_generic_phone_def amount_rejected_iff)
  have p: "stk_phone_invalid (JStr ''071234567'')" "stk_amount_invalid (JStr ''abc'')"
    by (simp_all add: stk_phone_invalid_iff phone_examples stk_amount_invalid_iff provider_amount_examples)
  show ?thesis
    using all_violations_generic_first_violation_provider [of "request_body (JStr ''071'') (JNum 0)"
        "\<lparr>date_now = 1700000000000, clock = 1700000000000, random = (\<lambda>k. 0)\<rparr>" init_state
        "request_body (JStr ''071234567'') (JStr ''abc'')" sample_config sample_env empty_world]
      g p
    by simp
qed

section \<open>The push request\<close>

text \<open>
  C2 (what the code does): the \<open>Password\<close> of every push payload is the base64 of shortcode,
  passkey and the payload's own \<open>Timestamp\<close>, and that payload is what is sent; but the
  timestamp is the ISO string with only \<open>-\<close> and \<open>:\<close> removed and the part from the dot on
  cut, so it keeps the letter \<open>T\<close> between date and time. It is never a string of digits
  only; at time value 1700000000000 it is the 15 characters \<open>20231114T221320\<close>, where
  the format \<open>YYYYMMDDHHMMSS\<close> asks for the 14 characters \<open>20231114221320\<close>.
\<close>

theorem push_timestamp_keeps_T:
  "Password (stk_request cfg now ph n)
     = base64 (shortcode cfg @ passkey cfg @ Timestamp (stk_request cfg now ph n))
   \<and> (\<exists>h. sent (snd (initiateSTKPush cfg env tok ph n w))
         = sent w @ [Post (stkPush (getEndpoints cfg)) (stk_request cfg (push_clock env) ph n) h])
   \<and> CHR ''T'' \<in> set (Timestamp (stk_request cfg now ph n))
   \<and> \<not> list_all is_digit (Timestamp (stk_request cfg now ph n))
   \<and> Timestamp (stk_request cfg 1700000000000 ph n) = ''20231114T221320''
   \<and> length (Timestamp (stk_request cfg 1700000000000 ph n)) = 15"
proof -
  have s: "\<exists>h. sent (snd (initiateSTKPush cfg env tok ph n w))
         = sent w @ [Post (stkPush (getEndpoints cfg)) (stk_request cfg (push_clock env) ph n) h]"
    by (cases "push_result env") (simp_all add: initiateSTKPush_def Let_def)
  show ?thesis
    using s stk_timestamp_has_T [of now] stk_timestamp_not_digits [of now]
    by (simp add: stk_request_def Let_def stk_timestamp_example)
qed

section \<open>The payment store\<close>






end
